theory Spec2Isabelle
  imports Complex_Main "HOL-Library.Word"
begin

section \<open>The console reporter of the benchmark library\<close>

text \<open>
  A shallow embedding of \<^verbatim>\<open>src/console_reporter.cc\<close>: the three member functions
  \<^verbatim>\<open>ConsoleReporter::ReportContext\<close>, \<^verbatim>\<open>ConsoleReporter::ReportRuns\<close> and
  \<^verbatim>\<open>ConsoleReporter::PrintRunData\<close>.

  \<^item> The two data members of the reporter are a record that every member function takes
    and returns (explicit state passing).
  \<^item> Everything a member function does to the outside is a list of events, in program
    order: a write to \<^verbatim>\<open>std::cerr\<close>, a write to \<^verbatim>\<open>stdout\<close>/\<^verbatim>\<open>std::cout\<close>, a call of
    \<^verbatim>\<open>ColorPrintf\<close> with its colour and the text its format string produces, and the call
    of \<^verbatim>\<open>BenchmarkReporter::ComputeStats\<close>.
  \<^item> A \<^verbatim>\<open>double\<close> is a \<^typ>\<open>real\<close>: finite values, exact arithmetic. The comparisons
    \<^verbatim>\<open>> 0\<close> of the source are false on a NaN, which the model does not have.
  \<^item> \<^verbatim>\<open>int64_t\<close> and \<^verbatim>\<open>size_t\<close> are 64-bit words; the conversion of the name width to
    \<^verbatim>\<open>int\<close> keeps the low 32 bits. \<open>num_cpus\<close> is only compared with 1 and printed, and
    is an \<^typ>\<open>int\<close>.
  \<^item> The helpers that the file calls and does not define (\<^verbatim>\<open>HumanReadableNumber\<close>,
    \<^verbatim>\<open>GetTimeUnitAndMultiplier\<close>, \<^verbatim>\<open>LocalDateTimeString\<close>, the C library's rendering of a
    \<^verbatim>\<open>double\<close>, the \<^verbatim>\<open>NDEBUG\<close> switch, \<^verbatim>\<open>ComputeStats\<close>) are parameters.
\<close>

subsection \<open>Data\<close>

type_synonym int64_t = "64 word"
type_synonym size_t = "64 word"

text \<open>
  Modelled from the spec: the enumeration \<^verbatim>\<open>TimeUnit\<close> is declared in
  \<^verbatim>\<open>benchmark/reporter.h\<close>, which is not among the sources; the spec lists the display
  units nanosecond, microsecond, millisecond and second.
\<close>

datatype TimeUnit = kNanosecond | kMicrosecond | kMillisecond | kSecond

text \<open>
  \<^verbatim>\<open>BenchmarkReporter::Run\<close>, with the fields that the source file reads
  (\<^verbatim>\<open>result.iterations\<close> is printed with \<^verbatim>\<open>%lld\<close>, the rates and times are doubles).
\<close>

record Run =
  benchmark_name :: string
  report_label :: string
  iterations :: int64_t
  time_unit :: TimeUnit
  real_accumulated_time :: real
  cpu_accumulated_time :: real
  manual_accumulated_time :: real
  bytes_per_second :: real
  items_per_second :: real
  bytes_per_manual_second :: real
  items_per_manual_second :: real
  both_manual_and_real_time :: bool

text \<open>\<^verbatim>\<open>BenchmarkReporter::Context\<close>, with the fields that \<^verbatim>\<open>ReportContext\<close> reads.\<close>

record Context =
  num_cpus :: int
  mhz_per_cpu :: real
  cpu_scaling_enabled :: bool
  name_field_width :: size_t
  manual_time_used :: bool

text \<open>The data members \<^verbatim>\<open>name_field_width_\<close> and \<^verbatim>\<open>manual_time_used_\<close> of
  \<^verbatim>\<open>ConsoleReporter\<close> (a name cannot end in an underscore here).\<close>

record ConsoleReporter =
  name_field_width_member :: size_t
  manual_time_used_member :: bool

text \<open>
  The collaborators that are called and not defined in the source file. \<open>printf_f0\<close> is
  what the conversion \<^verbatim>\<open>%.0f\<close> produces for a double before padding, \<open>ostream_double\<close>
  what \<^verbatim>\<open>operator<<\<close> produces for a double, \<open>NDEBUG\<close> whether the macro is defined.
\<close>

record Env =
  HumanReadableNumber :: "real \<Rightarrow> string"
  GetTimeUnitAndMultiplier :: "TimeUnit \<Rightarrow> string \<times> real"
  LocalDateTimeString :: string
  printf_f0 :: "real \<Rightarrow> string"
  ostream_double :: "real \<Rightarrow> string"
  NDEBUG :: bool

datatype stream = stdout | stderr

text \<open>The colours of \<^verbatim>\<open>colorprint.h\<close> that the source file uses.\<close>

datatype LogColor = COLOR_DEFAULT | COLOR_GREEN | COLOR_YELLOW | COLOR_CYAN

datatype event =
    Write stream string
  | ColorPrintf LogColor string
  | Call_ComputeStats "Run list"

text \<open>\<^verbatim>\<open>CHECK_EQ\<close> ends the process; the events before it have happened.\<close>

datatype error = CheckFailed

subsection \<open>Formatting primitives\<close>

definition nl :: string where
  "nl = [CHR 0x0A]"

text \<open>\<^verbatim>\<open>%Ns\<close>: right-justified in a field of at least \<open>N\<close> characters.\<close>

definition pad_left :: "nat \<Rightarrow> string \<Rightarrow> string" where
  "pad_left w s = replicate (w - length s) CHR '' '' @ s"

text \<open>\<^verbatim>\<open>%-Ns\<close>: left-justified in a field of at least \<open>N\<close> characters.\<close>

definition pad_right :: "nat \<Rightarrow> string \<Rightarrow> string" where
  "pad_right w s = s @ replicate (w - length s) CHR '' ''"

text \<open>\<^verbatim>\<open>static_cast<int>\<close> of a \<^verbatim>\<open>size_t\<close>: the low 32 bits, read as a signed number.\<close>

definition static_cast_int :: "size_t \<Rightarrow> int" where
  "static_cast_int n = sint (ucast n :: 32 word)"

text \<open>
  \<^verbatim>\<open>%-*s\<close> with the width taken from an \<^verbatim>\<open>int\<close> argument: a negative width is the flag
  \<^verbatim>\<open>-\<close> with the absolute value as the width.
\<close>

definition printf_s_left_star :: "int \<Rightarrow> string \<Rightarrow> string" where
  "printf_s_left_star w s = pad_right (nat \<bar>w\<bar>) s"

fun digits :: "nat \<Rightarrow> string" where
  "digits n = (if n < 10 then [''0123456789'' ! n]
               else digits (n div 10) @ [''0123456789'' ! (n mod 10)])"

declare digits.simps [simp del]

text \<open>A signed integer in decimal, as \<^verbatim>\<open>%lld\<close> and \<^verbatim>\<open>operator<<\<close> print it.\<close>

definition show_int :: "int \<Rightarrow> string" where
  "show_int i = (if i < 0 then CHR ''-'' # digits (nat (- i)) else digits (nat i))"

text \<open>
  Modelled from the spec: \<^verbatim>\<open>StrCat\<close> is declared in \<^verbatim>\<open>string_util.h\<close>, which is not among
  the sources; the spec describes each annotation as the scaled number followed by its
  suffix, so the arguments are joined in order.
\<close>

definition StrCat :: "string list \<Rightarrow> string" where
  "StrCat parts = concat parts"

subsection \<open>ReportContext\<close>

definition header3 :: "ConsoleReporter \<Rightarrow> string" where
  "header3 this =
     printf_s_left_star (static_cast_int (name_field_width_member this)) ''Benchmark'' @ '' '' @
     pad_left 13 ''Real time'' @ '' '' @ pad_left 13 ''Manual time'' @ '' '' @
     pad_left 13 ''CPU'' @ '' '' @ pad_left 10 ''Iterations'' @ nl"

definition header2 :: "ConsoleReporter \<Rightarrow> string" where
  "header2 this =
     printf_s_left_star (static_cast_int (name_field_width_member this)) ''Benchmark'' @ '' '' @
     pad_left 13 ''Time'' @ '' '' @ pad_left 13 ''CPU'' @ '' '' @
     pad_left 10 ''Iterations'' @ nl"

definition context_lines :: "Env \<Rightarrow> Context \<Rightarrow> event list" where
  "context_lines env context =
     [Write stderr (''Run on ('' @ show_int (num_cpus context) @ '' X '' @
                    ostream_double env (mhz_per_cpu context) @ '' MHz CPU '' @
                    (if num_cpus context > 1 then ''s'' else '''') @ '')'' @ nl),
      Write stderr (LocalDateTimeString env @ nl)] @
     (if cpu_scaling_enabled context
      then [Write stderr (''***WARNING*** CPU scaling is enabled, the benchmark '' @
                          ''real time measurements may be noisy and will incur extra '' @
                          ''overhead.'' @ nl)]
      else []) @
     (if \<not> NDEBUG env
      then [Write stderr (''***WARNING*** Library was built as DEBUG. Timings may be '' @
                          ''affected.'' @ nl)]
      else [])"

text \<open>
  The two calls of \<open>fprintf\<close> are taken to succeed: \<open>output_width\<close> is the number of
  characters printed, the final newline included. The rule line is
  \<^verbatim>\<open>std::string(output_width - 1, '-')\<close> followed by a newline.
\<close>

definition ReportContext ::
  "Env \<Rightarrow> Context \<Rightarrow> ConsoleReporter \<Rightarrow> bool \<times> ConsoleReporter \<times> event list" where
  "ReportContext env context this =
     (let this1 = this\<lparr>name_field_width_member := name_field_width context\<rparr>;
          out1 = context_lines env context;
          (header, this2) =
            (if manual_time_used context
             then (header3 this1, this1\<lparr>manual_time_used_member := True\<rparr>)
             else (header2 this1, this1\<lparr>manual_time_used_member := False\<rparr>));
          output_width = int (length header)
      in (True, this2,
          out1 @ [Write stdout header,
                  Write stdout (replicate (nat (output_width - 1)) CHR ''-'' @ nl)]))"

subsection \<open>PrintRunData\<close>

text \<open>Lines 93 to 104: the local strings \<open>rate\<close> and \<open>manual_rate\<close>, in this order.\<close>

definition format_rate :: "Env \<Rightarrow> Run \<Rightarrow> string \<times> string" where
  "format_rate env result =
     (let rate = (if bytes_per_second result > 0
                  then StrCat ['' '', HumanReadableNumber env (bytes_per_second result), ''B/s'']
                  else [])
      in if bytes_per_manual_second result > 0
         then (let manual_rate = StrCat ['' '', HumanReadableNumber env
                                    (bytes_per_manual_second result), ''B/s (manual)'']
               in if \<not> both_manual_and_real_time result then ([], manual_rate)
                  else (rate, manual_rate))
         else (rate, []))"

text \<open>Lines 106 to 120: the local strings \<open>items\<close> and \<open>manual_items\<close>, in this order.\<close>

definition format_items :: "Env \<Rightarrow> Run \<Rightarrow> string \<times> string" where
  "format_items env result =
     (let items = (if items_per_second result > 0
                   then StrCat ['' '', HumanReadableNumber env (items_per_second result),
                                '' items/s'']
                   else [])
      in if items_per_manual_second result > 0
         then (let manual_items = StrCat ['' '', HumanReadableNumber env
                                     (items_per_manual_second result), '' items/s (manual)'']
               in if \<not> both_manual_and_real_time result then ([], manual_items)
                  else (items, manual_items))
         else (items, []))"

text \<open>Lines 129 to 131: the divisor of the per-iteration times.\<close>

definition iters_of :: "Run \<Rightarrow> real" where
  "iters_of result =
     (if iterations result = 0 then 1 else real_of_int (sint (iterations result)))"

text \<open>\<^verbatim>\<open>%10.0f %s \<close>: one time column.\<close>

definition time_column :: "Env \<Rightarrow> real \<Rightarrow> string \<Rightarrow> string" where
  "time_column env v timeLabel = pad_left 10 (printf_f0 env v) @ '' '' @ timeLabel @ '' ''"

text \<open>Lines 133 to 154: the text of the yellow \<^verbatim>\<open>ColorPrintf\<close>.\<close>

definition time_section :: "Env \<Rightarrow> ConsoleReporter \<Rightarrow> Run \<Rightarrow> string" where
  "time_section env this result =
     (let (timeLabel, multiplier) = GetTimeUnitAndMultiplier env (time_unit result);
          iters = iters_of result
      in if manual_time_used_member this
         then time_column env ((real_accumulated_time result * multiplier) / iters) timeLabel @
              time_column env ((manual_accumulated_time result * multiplier) / iters) timeLabel @
              time_column env ((cpu_accumulated_time result * multiplier) / iters) timeLabel
         else time_column env ((real_accumulated_time result * multiplier) / iters) timeLabel @
              time_column env ((cpu_accumulated_time result * multiplier) / iters) timeLabel)"

text \<open>Lines 158 to 172: an annotation is printed when its string is not empty.\<close>

definition annotation :: "nat \<Rightarrow> string \<Rightarrow> event list" where
  "annotation w s = (if s \<noteq> [] then [ColorPrintf COLOR_DEFAULT ('' '' @ pad_left w s)] else [])"

text \<open>
  The name column passes the \<^verbatim>\<open>size_t\<close> member where \<^verbatim>\<open>%-*s\<close> reads an \<^verbatim>\<open>int\<close>: its low
  32 bits. The function assigns no data member, so the reporter is returned as it was.
\<close>

definition PrintRunData :: "Env \<Rightarrow> ConsoleReporter \<Rightarrow> Run \<Rightarrow> ConsoleReporter \<times> event list" where
  "PrintRunData env this result =
     (let (rate, manual_rate) = format_rate env result;
          (items, manual_items) = format_items env result
      in (this,
          [ColorPrintf COLOR_GREEN
             (printf_s_left_star (static_cast_int (name_field_width_member this))
                (benchmark_name result) @ '' ''),
           ColorPrintf COLOR_YELLOW (time_section env this result),
           ColorPrintf COLOR_CYAN (pad_left 10 (show_int (sint (iterations result))))] @
          annotation 13 rate @
          annotation 18 items @
          annotation 13 manual_rate @
          annotation 18 manual_items @
          (if report_label result \<noteq> []
           then [ColorPrintf COLOR_DEFAULT ('' '' @ report_label result)] else []) @
          [ColorPrintf COLOR_DEFAULT nl]))"

subsection \<open>ReportRuns\<close>

text \<open>
  Modelled from the spec: the macro \<^verbatim>\<open>CHECK_EQ\<close> is defined in \<^verbatim>\<open>check.h\<close>, which is not
  among the sources; the spec says that a mismatch of the benchmark names is checked,
  and that the core asserts and aborts on it.
\<close>

definition CHECK_EQ :: "'a \<Rightarrow> 'a \<Rightarrow> error + unit" where
  "CHECK_EQ a b = (if a = b then Inr () else Inl CheckFailed)"

text \<open>Lines 72 to 75: the loop over the reports; \<open>first\<close> is \<^verbatim>\<open>reports[0]\<close>.\<close>

fun print_runs ::
  "Env \<Rightarrow> Run \<Rightarrow> ConsoleReporter \<Rightarrow> Run list \<Rightarrow> (error + unit) \<times> ConsoleReporter \<times> event list" where
  "print_runs env first this [] = (Inr (), this, [])"
| "print_runs env first this (run # rest) =
     (case CHECK_EQ (benchmark_name first) (benchmark_name run) of
        Inl e \<Rightarrow> (Inl e, this, [])
      | Inr _ \<Rightarrow>
          (let (this1, out1) = PrintRunData env this run;
               (res, this2, out2) = print_runs env first this1 rest
           in (res, this2, out1 @ out2)))"

text \<open>
  \<open>stats\<close> is \<^verbatim>\<open>BenchmarkReporter::ComputeStats\<close>, which fills the two records it is
  given; its call is an event.
\<close>

definition ReportRuns ::
  "Env \<Rightarrow> (Run list \<Rightarrow> Run \<times> Run) \<Rightarrow> ConsoleReporter \<Rightarrow> Run list \<Rightarrow>
     (error + unit) \<times> ConsoleReporter \<times> event list" where
  "ReportRuns env stats this reports =
     (if reports = [] then (Inr (), this, [])
      else
        (case print_runs env (reports ! 0) this reports of
           (Inl e, this1, out1) \<Rightarrow> (Inl e, this1, out1)
         | (Inr _, this1, out1) \<Rightarrow>
             if length reports < 2 then (Inr (), this1, out1)
             else
               (let (mean_data, stddev_data) = stats reports;
                    (this2, out2) = PrintRunData env this1 mean_data;
                    (this3, out3) = PrintRunData env this2 stddev_data
                in (Inr (), this3, out1 @ [Call_ComputeStats reports] @ out2 @ out3))))"

subsection \<open>The two output streams\<close>

text \<open>
  The text that a list of events puts on a stream. \<^verbatim>\<open>ColorPrintf\<close> is defined in
  \<^verbatim>\<open>colorprint.cc\<close>, which is not among the sources: the stream it prints on is the
  parameter \<open>color_stream\<close>. The call of \<^verbatim>\<open>ComputeStats\<close> prints nothing.
\<close>

fun text_on :: "stream \<Rightarrow> stream \<Rightarrow> event list \<Rightarrow> string" where
  "text_on color_stream st [] = []"
| "text_on color_stream st (Write st' s # es) =
     (if st' = st then s else []) @ text_on color_stream st es"
| "text_on color_stream st (ColorPrintf c s # es) =
     (if color_stream = st then s else []) @ text_on color_stream st es"
| "text_on color_stream st (Call_ComputeStats reports # es) = text_on color_stream st es"

subsection \<open>ComputeStats\<close>

text \<open>
  Modelled from the spec: \<^verbatim>\<open>BenchmarkReporter::ComputeStats\<close> is defined in \<^verbatim>\<open>reporter.cc\<close>,
  which is not among the sources. \<open>Mean\<close> is the arithmetic mean across all \<open>N\<close> runs.
\<close>

definition Mean :: "real list \<Rightarrow> real" where
  "Mean xs = sum_list xs / real (length xs)"

text \<open>
  Modelled from the spec: the standard deviation of \<^verbatim>\<open>ComputeStats\<close> (not among the
  sources) is population-style, with \<open>N\<close> as the divisor, and the standard deviation of a
  single sample is defined as 0.
\<close>

definition StdDev :: "real list \<Rightarrow> real" where
  "StdDev xs =
     (if length xs = 1 then 0
      else sqrt (sum_list (map (\<lambda>x. (x - Mean xs)\<^sup>2) xs) / real (length xs)))"



subsection \<open>An instance of the collaborators\<close>

text \<open>
  Concrete collaborators and records, on which the functions above can be evaluated:
  numbers are scaled by nothing and printed as integers, and the unit table is the one
  the spec sketches (nanoseconds scaled by 1, seconds by a billionth).
\<close>

definition sample_env :: Env where
  "sample_env =
     \<lparr>HumanReadableNumber = (\<lambda>v. show_int \<lfloor>v\<rfloor>),
      GetTimeUnitAndMultiplier =
        (\<lambda>u. case u of kNanosecond \<Rightarrow> (''ns'', 1) | kMicrosecond \<Rightarrow> (''us'', 1 / 1000)
              | kMillisecond \<Rightarrow> (''ms'', 1 / 1000000) | kSecond \<Rightarrow> (''s'', 1 / 1000000000)),
      LocalDateTimeString = ''2015-11-03 10:00:00'',
      printf_f0 = (\<lambda>v. show_int \<lfloor>v + 1 / 2\<rfloor>),
      ostream_double = (\<lambda>v. show_int \<lfloor>v\<rfloor>),
      NDEBUG = True\<rparr>"

definition sample_run :: Run where
  "sample_run =
     \<lparr>benchmark_name = ''BM_copy'', report_label = [], iterations = 1,
      time_unit = kNanosecond, real_accumulated_time = 5, cpu_accumulated_time = 4,
      manual_accumulated_time = 0, bytes_per_second = 1000, items_per_second = 20,
      bytes_per_manual_second = 500, items_per_manual_second = 10,
      both_manual_and_real_time = False\<rparr>"

definition sample_context :: Context where
  "sample_context =
     \<lparr>num_cpus = 4, mhz_per_cpu = 2400, cpu_scaling_enabled = False,
      name_field_width = 10, manual_time_used = True\<rparr>"

definition sample_reporter :: ConsoleReporter where
  "sample_reporter = \<lparr>name_field_width_member = 10, manual_time_used_member = True\<rparr>"

definition sample_stats :: "Run list \<Rightarrow> Run \<times> Run" where
  "sample_stats reports =
     ((reports ! 0)\<lparr>benchmark_name := benchmark_name (reports ! 0) @ ''_mean''\<rparr>,
      (reports ! 0)\<lparr>benchmark_name := benchmark_name (reports ! 0) @ ''_stddev''\<rparr>)"

definition sample_run_real_only :: Run where
  "sample_run_real_only =
     sample_run\<lparr>bytes_per_manual_second := 0, items_per_manual_second := 0\<rparr>"

definition sample_run_long :: Run where
  "sample_run_long = sample_run\<lparr>real_accumulated_time := 12345678901234\<rparr>"

definition sample_reporter_no_manual :: ConsoleReporter where
  "sample_reporter_no_manual = \<lparr>name_field_width_member = 10, manual_time_used_member = False\<rparr>"

definition sample_run_other :: Run where
  "sample_run_other = sample_run\<lparr>benchmark_name := ''BM_fill''\<rparr>"


section \<open>Properties\<close>

subsection \<open>Auxiliary facts\<close>

lemma PrintRunData_reporter: "fst (PrintRunData env this result) = this"
  by (simp add: PrintRunData_def split: prod.splits)

lemma format_rate_cases:
  "format_rate env r =
     (if bytes_per_manual_second r > 0
      then (if both_manual_and_real_time r \<and> bytes_per_second r > 0
            then '' '' @ HumanReadableNumber env (bytes_per_second r) @ ''B/s'' else [],
            '' '' @ HumanReadableNumber env (bytes_per_manual_second r) @ ''B/s (manual)'')
      else (if bytes_per_second r > 0
            then '' '' @ HumanReadableNumber env (bytes_per_second r) @ ''B/s'' else [], []))"
  by (simp add: format_rate_def StrCat_def Let_def)

lemma format_items_cases:
  "format_items env r =
     (if items_per_manual_second r > 0
      then (if both_manual_and_real_time r \<and> items_per_second r > 0
            then '' '' @ HumanReadableNumber env (items_per_second r) @ '' items/s'' else [],
            '' '' @ HumanReadableNumber env (items_per_manual_second r) @ '' items/s (manual)'')
      else (if items_per_second r > 0
            then '' '' @ HumanReadableNumber env (items_per_second r) @ '' items/s'' else [], []))"
  by (simp add: format_items_def StrCat_def Let_def)

lemma PrintRunData_events:
  "snd (PrintRunData env this r) =
     [ColorPrintf COLOR_GREEN
        (printf_s_left_star (static_cast_int (name_field_width_member this))
           (benchmark_name r) @ '' ''),
      ColorPrintf COLOR_YELLOW (time_section env this r),
      ColorPrintf COLOR_CYAN (pad_left 10 (show_int (sint (iterations r))))] @
     annotation 13 (fst (format_rate env r)) @
     annotation 18 (fst (format_items env r)) @
     annotation 13 (snd (format_rate env r)) @
     annotation 18 (snd (format_items env r)) @
     (if report_label r \<noteq> [] then [ColorPrintf COLOR_DEFAULT ('' '' @ report_label r)] else []) @
     [ColorPrintf COLOR_DEFAULT nl]"
  by (simp add: PrintRunData_def split: prod.splits)

subsection \<open>Throughput annotations\<close>

text \<open>
  Claim C1. In a run with \<open>bytes_per_manual_second > 0\<close> and \<open>both_manual_and_real_time\<close>
  false, the local string \<open>rate\<close> is empty and \<open>manual_rate\<close> is the manual annotation,
  whatever \<open>bytes_per_second\<close> is: the line is the name, the times, the iterations, then
  the items annotation if any, the manual-rate annotation, the manual-items annotation if
  any, the label if any and the newline, with no real-time rate annotation among them.
  The same holds for \<open>items_per_manual_second\<close>, \<open>items\<close> and \<open>manual_items\<close>.
\<close>

theorem C1_manual_suppresses_real:
  "(bytes_per_manual_second r > 0 \<and> \<not> both_manual_and_real_time r \<longrightarrow>
      format_rate env r =
        ([], '' '' @ HumanReadableNumber env (bytes_per_manual_second r) @ ''B/s (manual)'') \<and>
      snd (PrintRunData env this r) =
        [ColorPrintf COLOR_GREEN
           (printf_s_left_star (static_cast_int (name_field_width_member this))
              (benchmark_name r) @ '' ''),
         ColorPrintf COLOR_YELLOW (time_section env this r),
         ColorPrintf COLOR_CYAN (pad_left 10 (show_int (sint (iterations r))))] @
        annotation 18 (fst (format_items env r)) @
        [ColorPrintf COLOR_DEFAULT
           ('' '' @ pad_left 13
              ('' '' @ HumanReadableNumber env (bytes_per_manual_second r) @ ''B/s (manual)''))] @
        annotation 18 (snd (format_items env r)) @
        (if report_label r \<noteq> [] then [ColorPrintf COLOR_DEFAULT ('' '' @ report_label r)]
         else []) @
        [ColorPrintf COLOR_DEFAULT nl]) \<and>
   (items_per_manual_second r > 0 \<and> \<not> both_manual_and_real_time r \<longrightarrow>
      format_items env r =
        ([], '' '' @ HumanReadableNumber env (items_per_manual_second r) @
             '' items/s (manual)'') \<and>
      snd (PrintRunData env this r) =
        [ColorPrintf COLOR_GREEN
           (printf_s_left_star (static_cast_int (name_field_width_member this))
              (benchmark_name r) @ '' ''),
         ColorPrintf COLOR_YELLOW (time_section env this r),
         ColorPrintf COLOR_CYAN (pad_left 10 (show_int (sint (iterations r))))] @
        annotation 13 (fst (format_rate env r)) @
        annotation 13 (snd (format_rate env r)) @
        [ColorPrintf COLOR_DEFAULT
           ('' '' @ pad_left 18
              ('' '' @ HumanReadableNumber env (items_per_manual_second r) @
               '' items/s (manual)''))] @
        (if report_label r \<noteq> [] then [ColorPrintf COLOR_DEFAULT ('' '' @ report_label r)]
         else []) @
        [ColorPrintf COLOR_DEFAULT nl])"
proof (intro conjI impI)
  assume h: "bytes_per_manual_second r > 0 \<and> \<not> both_manual_and_real_time r"
  then show fr: "format_rate env r =
      ([], '' '' @ HumanReadableNumber env (bytes_per_manual_second r) @ ''B/s (manual)'')"
    by (simp add: format_rate_cases)
  show "snd (PrintRunData env this r) =
        [ColorPrintf COLOR_GREEN
           (printf_s_left_star (static_cast_int (name_field_width_member this))
              (benchmark_name r) @ '' ''),
         ColorPrintf COLOR_YELLOW (time_section env this r),
         ColorPrintf COLOR_CYAN (pad_left 10 (show_int (sint (iterations r))))] @
        annotation 18 (fst (format_items env r)) @
        [ColorPrintf COLOR_DEFAULT
           ('' '' @ pad_left 13
              ('' '' @ HumanReadableNumber env (bytes_per_manual_second r) @ ''B/s (manual)''))] @
        annotation 18 (snd (format_items env r)) @
        (if report_label r \<noteq> [] then [ColorPrintf COLOR_DEFAULT ('' '' @ report_label r)]
         else []) @
        [ColorPrintf COLOR_DEFAULT nl]"
    unfolding PrintRunData_events fr by (simp add: annotation_def)
next
  assume h: "items_per_manual_second r > 0 \<and> \<not> both_manual_and_real_time r"
  then show fi: "format_items env r =
      ([], '' '' @ HumanReadableNumber env (items_per_manual_second r) @ '' items/s (manual)'')"
    by (simp add: format_items_cases)
  show "snd (PrintRunData env this r) =
        [ColorPrintf COLOR_GREEN
           (printf_s_left_star (static_cast_int (name_field_width_member this))
              (benchmark_name r) @ '' ''),
         ColorPrintf COLOR_YELLOW (time_section env this r),
         ColorPrintf COLOR_CYAN (pad_left 10 (show_int (sint (iterations r))))] @
        annotation 13 (fst (format_rate env r)) @
        annotation 13 (snd (format_rate env r)) @
        [ColorPrintf COLOR_DEFAULT
           ('' '' @ pad_left 18
              ('' '' @ HumanReadableNumber env (items_per_manual_second r) @
               '' items/s (manual)''))] @
        (if report_label r \<noteq> [] then [ColorPrintf COLOR_DEFAULT ('' '' @ report_label r)]
         else []) @
        [ColorPrintf COLOR_DEFAULT nl]"
    unfolding PrintRunData_events fi by (simp add: annotation_def)
qed

lemma spaces_numeral:
  "replicate (numeral k) (c :: char) = [c] @ replicate (pred_numeral k) c"
  by (simp add: numeral_eq_Suc)

lemma digits_eval:
  "digits 0 = ''0''" "digits 1 = ''1''" "digits (Suc 0) = ''1''" "digits 4 = ''4''" "digits 5 = ''5''"
  "digits 10 = ''10''" "digits 20 = ''20''" "digits 500 = ''500''" "digits 1000 = ''1000''"
  "digits 2400 = ''2400''"
  by code_simp+

lemma sample_time_section:
  "time_section sample_env sample_reporter sample_run =
     ''         5 ns          0 ns          4 ns ''"
  by (simp add: time_section_def time_column_def iters_of_def sample_env_def sample_run_def
      sample_reporter_def pad_left_def show_int_def digits_eval spaces_numeral)

text \<open>
  The run of the spec's example: 500 manual bytes per second, 1000 bytes per second, the
  flag false.
\<close>

theorem C1_witness:
  "bytes_per_manual_second sample_run > 0 \<and> items_per_manual_second sample_run > 0 \<and>
   bytes_per_second sample_run > 0 \<and> items_per_second sample_run > 0 \<and>
   \<not> both_manual_and_real_time sample_run \<and>
   format_rate sample_env sample_run = ([], '' 500B/s (manual)'') \<and>
   format_items sample_env sample_run = ([], '' 10 items/s (manual)'') \<and>
   snd (PrintRunData sample_env sample_reporter sample_run) =
     [ColorPrintf COLOR_GREEN ''BM_copy    '',
      ColorPrintf COLOR_YELLOW ''         5 ns          0 ns          4 ns '',
      ColorPrintf COLOR_CYAN ''         1'',
      ColorPrintf COLOR_DEFAULT ''  500B/s (manual)'',
      ColorPrintf COLOR_DEFAULT ''  10 items/s (manual)'',
      ColorPrintf COLOR_DEFAULT [CHR 0x0A]]"
proof -
  have v: "bytes_per_manual_second sample_run = 500" "items_per_manual_second sample_run = 10"
    "bytes_per_second sample_run = 1000" "items_per_second sample_run = 20"
    "\<not> both_manual_and_real_time sample_run" "report_label sample_run = []"
    "benchmark_name sample_run = ''BM_copy''" "iterations sample_run = 1"
    by (simp_all add: sample_run_def)
  have e: "HumanReadableNumber sample_env 500 = ''500''"
    "HumanReadableNumber sample_env 10 = ''10''"
    by (simp_all add: sample_env_def show_int_def digits_eval)
  have w: "name_field_width_member sample_reporter = 10"
    by (simp add: sample_reporter_def)
  show ?thesis
    using C1_manual_suppresses_real [of sample_run sample_env sample_reporter]
    by (simp add: v e w sample_time_section annotation_def pad_left_def nl_def
        printf_s_left_star_def pad_right_def static_cast_int_def show_int_def digits_eval
        spaces_numeral)
qed

text \<open>
  Claim C9. With \<open>bytes_per_manual_second = 0\<close> the block that clears \<open>rate\<close> is not
  entered: a positive \<open>bytes_per_second\<close> gives the real-time rate annotation whatever
  \<open>both_manual_and_real_time\<close> is; likewise for the items. Conversely, when a positive
  real-time value has no annotation, the manual value is strictly positive (and the flag
  is false). In the whole line the real-time annotation then stands right after the
  iterations (the rate) or after the rate annotation if any (the items), and the manual
  annotation of the same kind is absent.
\<close>

theorem C9_no_suppression_without_manual:
  "(bytes_per_manual_second r = 0 \<and> bytes_per_second r > 0 \<longrightarrow>
      format_rate env r = ('' '' @ HumanReadableNumber env (bytes_per_second r) @ ''B/s'', []) \<and>
      annotation 13 (fst (format_rate env r)) =
        [ColorPrintf COLOR_DEFAULT
           ('' '' @ pad_left 13 ('' '' @ HumanReadableNumber env (bytes_per_second r) @ ''B/s''))]) \<and>
   (items_per_manual_second r = 0 \<and> items_per_second r > 0 \<longrightarrow>
      format_items env r =
        ('' '' @ HumanReadableNumber env (items_per_second r) @ '' items/s'', []) \<and>
      annotation 18 (fst (format_items env r)) =
        [ColorPrintf COLOR_DEFAULT
           ('' '' @ pad_left 18 ('' '' @ HumanReadableNumber env (items_per_second r) @
                                '' items/s''))]) \<and>
   (bytes_per_second r > 0 \<and> fst (format_rate env r) = [] \<longrightarrow>
      bytes_per_manual_second r > 0 \<and> \<not> both_manual_and_real_time r) \<and>
   (items_per_second r > 0 \<and> fst (format_items env r) = [] \<longrightarrow>
      items_per_manual_second r > 0 \<and> \<not> both_manual_and_real_time r) \<and>
   (bytes_per_manual_second r = 0 \<and> bytes_per_second r > 0 \<longrightarrow>
      snd (PrintRunData env this r) =
        [ColorPrintf COLOR_GREEN
           (printf_s_left_star (static_cast_int (name_field_width_member this))
              (benchmark_name r) @ '' ''),
         ColorPrintf COLOR_YELLOW (time_section env this r),
         ColorPrintf COLOR_CYAN (pad_left 10 (show_int (sint (iterations r)))),
         ColorPrintf COLOR_DEFAULT
           ('' '' @ pad_left 13 ('' '' @ HumanReadableNumber env (bytes_per_second r) @ ''B/s''))] @
        annotation 18 (fst (format_items env r)) @
        annotation 18 (snd (format_items env r)) @
        (if report_label r \<noteq> [] then [ColorPrintf COLOR_DEFAULT ('' '' @ report_label r)]
         else []) @
        [ColorPrintf COLOR_DEFAULT nl]) \<and>
   (items_per_manual_second r = 0 \<and> items_per_second r > 0 \<longrightarrow>
      snd (PrintRunData env this r) =
        [ColorPrintf COLOR_GREEN
           (printf_s_left_star (static_cast_int (name_field_width_member this))
              (benchmark_name r) @ '' ''),
         ColorPrintf COLOR_YELLOW (time_section env this r),
         ColorPrintf COLOR_CYAN (pad_left 10 (show_int (sint (iterations r))))] @
        annotation 13 (fst (format_rate env r)) @
        [ColorPrintf COLOR_DEFAULT
           ('' '' @ pad_left 18 ('' '' @ HumanReadableNumber env (items_per_second r) @
                                '' items/s''))] @
        annotation 13 (snd (format_rate env r)) @
        (if report_label r \<noteq> [] then [ColorPrintf COLOR_DEFAULT ('' '' @ report_label r)]
         else []) @
        [ColorPrintf COLOR_DEFAULT nl])"
proof -
  have a: "(bytes_per_manual_second r = 0 \<and> bytes_per_second r > 0 \<longrightarrow>
      format_rate env r = ('' '' @ HumanReadableNumber env (bytes_per_second r) @ ''B/s'', []) \<and>
      annotation 13 (fst (format_rate env r)) =
        [ColorPrintf COLOR_DEFAULT
           ('' '' @ pad_left 13 ('' '' @ HumanReadableNumber env (bytes_per_second r) @ ''B/s''))]) \<and>
   (items_per_manual_second r = 0 \<and> items_per_second r > 0 \<longrightarrow>
      format_items env r =
        ('' '' @ HumanReadableNumber env (items_per_second r) @ '' items/s'', []) \<and>
      annotation 18 (fst (format_items env r)) =
        [ColorPrintf COLOR_DEFAULT
           ('' '' @ pad_left 18 ('' '' @ HumanReadableNumber env (items_per_second r) @
                                '' items/s''))]) \<and>
   (bytes_per_second r > 0 \<and> fst (format_rate env r) = [] \<longrightarrow>
      bytes_per_manual_second r > 0 \<and> \<not> both_manual_and_real_time r) \<and>
   (items_per_second r > 0 \<and> fst (format_items env r) = [] \<longrightarrow>
      items_per_manual_second r > 0 \<and> \<not> both_manual_and_real_time r)"
    by (auto simp add: format_rate_cases format_items_cases annotation_def split: if_splits)
  have b: "bytes_per_manual_second r = 0 \<and> bytes_per_second r > 0 \<longrightarrow>
      snd (PrintRunData env this r) =
        [ColorPrintf COLOR_GREEN
           (printf_s_left_star (static_cast_int (name_field_width_member this))
              (benchmark_name r) @ '' ''),
         ColorPrintf COLOR_YELLOW (time_section env this r),
         ColorPrintf COLOR_CYAN (pad_left 10 (show_int (sint (iterations r)))),
         ColorPrintf COLOR_DEFAULT
           ('' '' @ pad_left 13 ('' '' @ HumanReadableNumber env (bytes_per_second r) @ ''B/s''))] @
        annotation 18 (fst (format_items env r)) @
        annotation 18 (snd (format_items env r)) @
        (if report_label r \<noteq> [] then [ColorPrintf COLOR_DEFAULT ('' '' @ report_label r)]
         else []) @
        [ColorPrintf COLOR_DEFAULT nl]"
  proof
    assume h: "bytes_per_manual_second r = 0 \<and> bytes_per_second r > 0"
    then have f: "format_rate env r =
        ('' '' @ HumanReadableNumber env (bytes_per_second r) @ ''B/s'', [])"
      by (simp add: format_rate_cases)
    show "snd (PrintRunData env this r) =
        [ColorPrintf COLOR_GREEN
           (printf_s_left_star (static_cast_int (name_field_width_member this))
              (benchmark_name r) @ '' ''),
         ColorPrintf COLOR_YELLOW (time_section env this r),
         ColorPrintf COLOR_CYAN (pad_left 10 (show_int (sint (iterations r)))),
         ColorPrintf COLOR_DEFAULT
           ('' '' @ pad_left 13 ('' '' @ HumanReadableNumber env (bytes_per_second r) @ ''B/s''))] @
        annotation 18 (fst (format_items env r)) @
        annotation 18 (snd (format_items env r)) @
        (if report_label r \<noteq> [] then [ColorPrintf COLOR_DEFAULT ('' '' @ report_label r)]
         else []) @
        [ColorPrintf COLOR_DEFAULT nl]"
      unfolding PrintRunData_events f by (simp add: annotation_def)
  qed
  have c: "items_per_manual_second r = 0 \<and> items_per_second r > 0 \<longrightarrow>
      snd (PrintRunData env this r) =
        [ColorPrintf COLOR_GREEN
           (printf_s_left_star (static_cast_int (name_field_width_member this))
              (benchmark_name r) @ '' ''),
         ColorPrintf COLOR_YELLOW (time_section env this r),
         ColorPrintf COLOR_CYAN (pad_left 10 (show_int (sint (iterations r))))] @
        annotation 13 (fst (format_rate env r)) @
        [ColorPrintf COLOR_DEFAULT
           ('' '' @ pad_left 18 ('' '' @ HumanReadableNumber env (items_per_second r) @
                                '' items/s''))] @
        annotation 13 (snd (format_rate env r)) @
        (if report_label r \<noteq> [] then [ColorPrintf COLOR_DEFAULT ('' '' @ report_label r)]
         else []) @
        [ColorPrintf COLOR_DEFAULT nl]"
  proof
    assume h: "items_per_manual_second r = 0 \<and> items_per_second r > 0"
    then have f: "format_items env r =
        ('' '' @ HumanReadableNumber env (items_per_second r) @ '' items/s'', [])"
      by (simp add: format_items_cases)
    show "snd (PrintRunData env this r) =
        [ColorPrintf COLOR_GREEN
           (printf_s_left_star (static_cast_int (name_field_width_member this))
              (benchmark_name r) @ '' ''),
         ColorPrintf COLOR_YELLOW (time_section env this r),
         ColorPrintf COLOR_CYAN (pad_left 10 (show_int (sint (iterations r))))] @
        annotation 13 (fst (format_rate env r)) @
        [ColorPrintf COLOR_DEFAULT
           ('' '' @ pad_left 18 ('' '' @ HumanReadableNumber env (items_per_second r) @
                                '' items/s''))] @
        annotation 13 (snd (format_rate env r)) @
        (if report_label r \<noteq> [] then [ColorPrintf COLOR_DEFAULT ('' '' @ report_label r)]
         else []) @
        [ColorPrintf COLOR_DEFAULT nl]"
      unfolding PrintRunData_events f by (simp add: annotation_def)
  qed
  show ?thesis
    by (intro conjI a [THEN conjunct1] a [THEN conjunct2, THEN conjunct1]
        a [THEN conjunct2, THEN conjunct2, THEN conjunct1]
        a [THEN conjunct2, THEN conjunct2, THEN conjunct2] b c)
qed

theorem C9_witness:
  "bytes_per_manual_second sample_run_real_only = 0 \<and>
   bytes_per_second sample_run_real_only > 0 \<and>
   items_per_manual_second sample_run_real_only = 0 \<and>
   items_per_second sample_run_real_only > 0 \<and>
   \<not> both_manual_and_real_time sample_run_real_only \<and>
   format_rate sample_env sample_run_real_only = ('' 1000B/s'', []) \<and>
   format_items sample_env sample_run_real_only = ('' 20 items/s'', []) \<and>
   snd (PrintRunData sample_env sample_reporter sample_run_real_only) =
     [ColorPrintf COLOR_GREEN ''BM_copy    '',
      ColorPrintf COLOR_YELLOW ''         5 ns          0 ns          4 ns '',
      ColorPrintf COLOR_CYAN ''         1'',
      ColorPrintf COLOR_DEFAULT ''       1000B/s'',
      ColorPrintf COLOR_DEFAULT ''         20 items/s'',
      ColorPrintf COLOR_DEFAULT [CHR 0x0A]] \<and>
   bytes_per_second sample_run > 0 \<and> fst (format_rate sample_env sample_run) = [] \<and>
   bytes_per_manual_second sample_run > 0"
proof -
  have v: "bytes_per_manual_second sample_run_real_only = 0"
    "items_per_manual_second sample_run_real_only = 0"
    "bytes_per_second sample_run_real_only = 1000" "items_per_second sample_run_real_only = 20"
    "\<not> both_manual_and_real_time sample_run_real_only"
    "report_label sample_run_real_only = []"
    "benchmark_name sample_run_real_only = ''BM_copy''" "iterations sample_run_real_only = 1"
    "bytes_per_second sample_run = 1000" "bytes_per_manual_second sample_run = 500"
    "\<not> both_manual_and_real_time sample_run"
    by (simp_all add: sample_run_real_only_def sample_run_def)
  have e: "HumanReadableNumber sample_env 1000 = ''1000''"
    "HumanReadableNumber sample_env 20 = ''20''"
    by (simp_all add: sample_env_def show_int_def digits_eval)
  have w: "name_field_width_member sample_reporter = 10"
    by (simp add: sample_reporter_def)
  have t: "time_section sample_env sample_reporter sample_run_real_only =
      ''         5 ns          0 ns          4 ns ''"
    by (simp add: time_section_def time_column_def iters_of_def sample_env_def sample_run_def
      sample_run_real_only_def sample_reporter_def pad_left_def show_int_def digits_eval
      spaces_numeral)
  have f: "fst (format_rate sample_env sample_run) = []"
    by (simp add: format_rate_cases v)
  show ?thesis
    using C9_no_suppression_without_manual [of sample_run_real_only sample_env]
      C9_no_suppression_without_manual [of sample_run sample_env]
    by (simp add: v e w t f PrintRunData_events annotation_def pad_left_def nl_def
        printf_s_left_star_def pad_right_def static_cast_int_def show_int_def digits_eval
        spaces_numeral)
qed

subsection \<open>The divisor of the per-iteration times\<close>

lemma iters_of_nonzero: "iters_of r \<noteq> 0"
  by (simp add: iters_of_def signed_eq_0_iff)

text \<open>
  Claim C3. The divisor is 1 when \<open>iterations\<close> is 0 and the converted \<open>iterations\<close>
  otherwise, and it is never zero; a run with \<open>iterations = 0\<close> has the same divisor and
  the same time columns as the same run with \<open>iterations = 1\<close>: the accumulated times
  scaled by the unit's multiplier, undivided. In every run each time column prints the
  accumulated time, scaled and divided by that divisor.
\<close>

theorem C3_divisor_never_zero:
  "iters_of r \<noteq> 0 \<and>
   iters_of (r\<lparr>iterations := 0\<rparr>) = 1 \<and>
   (iterations r \<noteq> 0 \<longrightarrow> iters_of r = real_of_int (sint (iterations r))) \<and>
   iters_of (r\<lparr>iterations := 0\<rparr>) = iters_of (r\<lparr>iterations := 1\<rparr>) \<and>
   time_section env this (r\<lparr>iterations := 0\<rparr>) = time_section env this (r\<lparr>iterations := 1\<rparr>) \<and>
   time_section env this (r\<lparr>iterations := 0\<rparr>) =
     (let (timeLabel, multiplier) = GetTimeUnitAndMultiplier env (time_unit r)
      in if manual_time_used_member this
         then time_column env (real_accumulated_time r * multiplier) timeLabel @
              time_column env (manual_accumulated_time r * multiplier) timeLabel @
              time_column env (cpu_accumulated_time r * multiplier) timeLabel
         else time_column env (real_accumulated_time r * multiplier) timeLabel @
              time_column env (cpu_accumulated_time r * multiplier) timeLabel) \<and>
   time_section env this r =
     (let (timeLabel, multiplier) = GetTimeUnitAndMultiplier env (time_unit r)
      in if manual_time_used_member this
         then time_column env (real_accumulated_time r * multiplier /
                (if iterations r = 0 then 1 else real_of_int (sint (iterations r)))) timeLabel @
              time_column env (manual_accumulated_time r * multiplier /
                (if iterations r = 0 then 1 else real_of_int (sint (iterations r)))) timeLabel @
              time_column env (cpu_accumulated_time r * multiplier /
                (if iterations r = 0 then 1 else real_of_int (sint (iterations r)))) timeLabel
         else time_column env (real_accumulated_time r * multiplier /
                (if iterations r = 0 then 1 else real_of_int (sint (iterations r)))) timeLabel @
              time_column env (cpu_accumulated_time r * multiplier /
                (if iterations r = 0 then 1 else real_of_int (sint (iterations r)))) timeLabel)"
  using iters_of_nonzero [of r]
  by (simp add: iters_of_def time_section_def Let_def split: prod.splits)

theorem C3_witness:
  "iterations sample_run \<noteq> 0 \<and> iters_of sample_run = 1 \<and>
   time_section sample_env sample_reporter
     (sample_run\<lparr>iterations := 0, real_accumulated_time := 5\<rparr>) =
     ''         5 ns          0 ns          4 ns '' \<and>
   time_section sample_env sample_reporter
     (sample_run\<lparr>iterations := 1, real_accumulated_time := 5\<rparr>) =
     ''         5 ns          0 ns          4 ns ''"
proof -
  have "time_section sample_env sample_reporter (sample_run\<lparr>real_accumulated_time := 5\<rparr>) =
      ''         5 ns          0 ns          4 ns ''"
    by (simp add: time_section_def time_column_def iters_of_def sample_env_def sample_run_def
      sample_reporter_def pad_left_def show_int_def digits_eval spaces_numeral)
  moreover have "sample_run\<lparr>iterations := 1, real_accumulated_time := 5\<rparr> =
      sample_run\<lparr>real_accumulated_time := 5\<rparr>"
    by (simp add: sample_run_def)
  ultimately show ?thesis
    using C3_divisor_never_zero [of "sample_run\<lparr>real_accumulated_time := 5\<rparr>"
        sample_env sample_reporter]
      C3_divisor_never_zero [of sample_run sample_env sample_reporter]
    by (simp add: sample_run_def)
qed

subsection \<open>Time columns\<close>

lemma length_time_column:
  "length (time_column env v timeLabel) =
     max 10 (length (printf_f0 env v)) + 2 + length timeLabel"
  by (simp add: time_column_def pad_left_def)

lemma length_time_section:
  "length (time_section env this r) =
     sum_list (map (\<lambda>t. max 10 (length (printf_f0 env
                      (t * snd (GetTimeUnitAndMultiplier env (time_unit r)) / iters_of r))) +
                    2 + length (fst (GetTimeUnitAndMultiplier env (time_unit r))))
                 (if manual_time_used_member this
                  then [real_accumulated_time r, manual_accumulated_time r,
                        cpu_accumulated_time r]
                  else [real_accumulated_time r, cpu_accumulated_time r]))"
  by (auto simp add: time_section_def time_column_def pad_left_def Let_def max_def
      split: prod.splits)

lemma digits_long: "digits 12345678901234 = ''12345678901234''"
  by (simp add: digits.simps)

lemma sample_time_section_long:
  "time_section sample_env sample_reporter sample_run_long =
     ''12345678901234 ns          0 ns          4 ns ''"
  by (simp add: time_section_def time_column_def iters_of_def sample_env_def sample_run_def
      sample_run_long_def sample_reporter_def pad_left_def show_int_def digits_eval digits_long
      spaces_numeral)

text \<open>
  Claim C4 as it is stated fails on a run whose per-iteration time has more than 10
  digits: \<^verbatim>\<open>%10.0f\<close> gives a minimum width, not a fixed one. Under one reporter, a real
  time of 12345678901234 is printed in a column of 14 characters, and the time section
  of that line is longer than the time section of a line with small times.
\<close>

theorem C4_counterexample:
  "manual_time_used_member sample_reporter \<and>
   time_section sample_env sample_reporter sample_run_long =
     ''12345678901234 ns          0 ns          4 ns '' \<and>
   time_section sample_env sample_reporter sample_run =
     ''         5 ns          0 ns          4 ns '' \<and>
   length (pad_left 10 (printf_f0 sample_env (real_accumulated_time sample_run_long))) = 14 \<and>
   length (time_section sample_env sample_reporter sample_run_long) \<noteq>
     length (time_section sample_env sample_reporter sample_run)"
proof -
  have "printf_f0 sample_env (real_accumulated_time sample_run_long) = ''12345678901234''"
    by (simp add: sample_env_def sample_run_long_def sample_run_def show_int_def digits_long)
  moreover have "manual_time_used_member sample_reporter"
    by (simp add: sample_reporter_def)
  ultimately show ?thesis
    by (simp add: sample_time_section_long sample_time_section pad_left_def)
qed

text \<open>
  Claim C4, amended. With the reporter's \<open>manual_time_used_\<close> set, the yellow part of the
  line is three time columns: real, manual and cpu time, each scaled, divided and printed
  by \<^verbatim>\<open>%10.0f\<close>, then a space, the unit label and a space; the manual column is there
  whatever the run's \<open>manual_accumulated_time\<close> is. With the flag clear it is the two
  columns real and cpu. The yellow part is the second event of every line. A number of
  at most 10 characters is right-justified with spaces in exactly 10 characters; a
  longer number is printed as it is. So the time section has at least 3 (or 2) times
  12 characters plus the label, and exactly that many when each of its numbers has at
  most 10 characters: all such lines of a session with unit labels of one length have
  the same time-section layout.
\<close>

theorem C4_time_columns:
  "(manual_time_used_member this \<longrightarrow>
      time_section env this r =
        concat (map (\<lambda>t. pad_left 10 (printf_f0 env
                            (t * snd (GetTimeUnitAndMultiplier env (time_unit r)) / iters_of r)) @
                          '' '' @ fst (GetTimeUnitAndMultiplier env (time_unit r)) @ '' '')
                 [real_accumulated_time r, manual_accumulated_time r, cpu_accumulated_time r])) \<and>
   (\<not> manual_time_used_member this \<longrightarrow>
      time_section env this r =
        concat (map (\<lambda>t. pad_left 10 (printf_f0 env
                            (t * snd (GetTimeUnitAndMultiplier env (time_unit r)) / iters_of r)) @
                          '' '' @ fst (GetTimeUnitAndMultiplier env (time_unit r)) @ '' '')
                 [real_accumulated_time r, cpu_accumulated_time r])) \<and>
   snd (PrintRunData env this r) ! 1 = ColorPrintf COLOR_YELLOW (time_section env this r) \<and>
   length (pad_left 10 (printf_f0 env v) @ '' '' @ timeLabel @ '' '') =
     max 10 (length (printf_f0 env v)) + 2 + length timeLabel \<and>
   (length (printf_f0 env v) \<le> 10 \<longrightarrow>
      length (pad_left 10 (printf_f0 env v)) = 10 \<and>
      drop (10 - length (printf_f0 env v)) (pad_left 10 (printf_f0 env v)) = printf_f0 env v \<and>
      set (take (10 - length (printf_f0 env v)) (pad_left 10 (printf_f0 env v))) \<subseteq> {CHR '' ''}) \<and>
   (10 < length (printf_f0 env v) \<longrightarrow> pad_left 10 (printf_f0 env v) = printf_f0 env v) \<and>
   (if manual_time_used_member this then 3 else 2) *
     (12 + length (fst (GetTimeUnitAndMultiplier env (time_unit r))))
     \<le> length (time_section env this r) \<and>
   ((\<forall>t \<in> set (if manual_time_used_member this
                 then [real_accumulated_time r, manual_accumulated_time r,
                       cpu_accumulated_time r]
                 else [real_accumulated_time r, cpu_accumulated_time r]).
       length (printf_f0 env
                 (t * snd (GetTimeUnitAndMultiplier env (time_unit r)) / iters_of r)) \<le> 10) \<longrightarrow>
      length (time_section env this r) =
        (if manual_time_used_member this then 3 else 2) *
        (12 + length (fst (GetTimeUnitAndMultiplier env (time_unit r)))))"
proof -
  have a: "(manual_time_used_member this \<longrightarrow>
      time_section env this r =
        concat (map (\<lambda>t. pad_left 10 (printf_f0 env
                            (t * snd (GetTimeUnitAndMultiplier env (time_unit r)) / iters_of r)) @
                          '' '' @ fst (GetTimeUnitAndMultiplier env (time_unit r)) @ '' '')
                 [real_accumulated_time r, manual_accumulated_time r, cpu_accumulated_time r])) \<and>
   (\<not> manual_time_used_member this \<longrightarrow>
      time_section env this r =
        concat (map (\<lambda>t. pad_left 10 (printf_f0 env
                            (t * snd (GetTimeUnitAndMultiplier env (time_unit r)) / iters_of r)) @
                          '' '' @ fst (GetTimeUnitAndMultiplier env (time_unit r)) @ '' '')
                 [real_accumulated_time r, cpu_accumulated_time r])) \<and>
   snd (PrintRunData env this r) ! 1 = ColorPrintf COLOR_YELLOW (time_section env this r) \<and>
   length (pad_left 10 (printf_f0 env v) @ '' '' @ timeLabel @ '' '') =
     max 10 (length (printf_f0 env v)) + 2 + length timeLabel"
    by (simp add: time_section_def time_column_def PrintRunData_events pad_left_def Let_def
        split: prod.splits)
  have b: "length (printf_f0 env v) \<le> 10 \<longrightarrow>
      length (pad_left 10 (printf_f0 env v)) = 10 \<and>
      drop (10 - length (printf_f0 env v)) (pad_left 10 (printf_f0 env v)) = printf_f0 env v \<and>
      set (take (10 - length (printf_f0 env v)) (pad_left 10 (printf_f0 env v))) \<subseteq> {CHR '' ''}"
    by (auto simp add: pad_left_def)
  have c: "10 < length (printf_f0 env v) \<longrightarrow> pad_left 10 (printf_f0 env v) = printf_f0 env v"
    by (simp add: pad_left_def)
  have d: "(if manual_time_used_member this then 3 else 2) *
     (12 + length (fst (GetTimeUnitAndMultiplier env (time_unit r))))
     \<le> length (time_section env this r)"
    unfolding length_time_section by (auto simp add: max_def)
  have e: "(\<forall>t \<in> set (if manual_time_used_member this
                 then [real_accumulated_time r, manual_accumulated_time r,
                       cpu_accumulated_time r]
                 else [real_accumulated_time r, cpu_accumulated_time r]).
       length (printf_f0 env
                 (t * snd (GetTimeUnitAndMultiplier env (time_unit r)) / iters_of r)) \<le> 10) \<longrightarrow>
      length (time_section env this r) =
        (if manual_time_used_member this then 3 else 2) *
        (12 + length (fst (GetTimeUnitAndMultiplier env (time_unit r))))"
    unfolding length_time_section by (auto simp add: max_def)
  show ?thesis
    by (intro conjI a [THEN conjunct1] a [THEN conjunct2, THEN conjunct1]
        a [THEN conjunct2, THEN conjunct2, THEN conjunct1]
        a [THEN conjunct2, THEN conjunct2, THEN conjunct2] b c d e)
qed

theorem C4_witness:
  "manual_time_used_member sample_reporter \<and>
   \<not> manual_time_used_member sample_reporter_no_manual \<and>
   manual_accumulated_time sample_run = 0 \<and>
   length (printf_f0 sample_env 5) \<le> 10 \<and> length (printf_f0 sample_env 0) \<le> 10 \<and>
   length (printf_f0 sample_env 4) \<le> 10 \<and>
   time_section sample_env sample_reporter sample_run =
     ''         5 ns          0 ns          4 ns '' \<and>
   time_section sample_env sample_reporter_no_manual sample_run =
     ''         5 ns          4 ns '' \<and>
   length (time_section sample_env sample_reporter sample_run) = 42 \<and>
   length (time_section sample_env sample_reporter_no_manual sample_run) = 28"
proof -
  have v: "real_accumulated_time sample_run = 5" "manual_accumulated_time sample_run = 0"
    "cpu_accumulated_time sample_run = 4" "time_unit sample_run = kNanosecond"
    "iters_of sample_run = 1"
    by (simp_all add: sample_run_def iters_of_def)
  have e: "GetTimeUnitAndMultiplier sample_env kNanosecond = (''ns'', 1)"
    "printf_f0 sample_env 5 = ''5''" "printf_f0 sample_env 0 = ''0''"
    "printf_f0 sample_env 4 = ''4''"
    by (simp_all add: sample_env_def show_int_def digits_eval)
  have m: "manual_time_used_member sample_reporter"
    "\<not> manual_time_used_member sample_reporter_no_manual"
    by (simp_all add: sample_reporter_def sample_reporter_no_manual_def)
  show ?thesis
    using C4_time_columns [of sample_reporter sample_env sample_run 5 "''ns''"]
      C4_time_columns [of sample_reporter_no_manual sample_env sample_run 5 "''ns''"]
    by (simp add: v e m pad_left_def spaces_numeral)
qed

subsection \<open>The header and its rule line\<close>

lemma length_header2:
  "length (header2 this) =
     max 9 (nat \<bar>static_cast_int (name_field_width_member this)\<bar>) + 40"
  by (simp add: header2_def printf_s_left_star_def pad_right_def pad_left_def nl_def)

lemma length_header3:
  "length (header3 this) =
     max 9 (nat \<bar>static_cast_int (name_field_width_member this)\<bar>) + 54"
  by (simp add: header3_def printf_s_left_star_def pad_right_def pad_left_def nl_def)



lemma ReportContext_events:
  "snd (snd (ReportContext env context this)) =
     context_lines env context @
     [Write stdout
        (if manual_time_used context
         then header3 (this\<lparr>name_field_width_member := name_field_width context\<rparr>)
         else header2 (this\<lparr>name_field_width_member := name_field_width context\<rparr>)),
      Write stdout
        (replicate
           (length (if manual_time_used context
                    then header3 (this\<lparr>name_field_width_member := name_field_width context\<rparr>)
                    else header2 (this\<lparr>name_field_width_member := name_field_width context\<rparr>))
            - 1) CHR ''-'' @ nl)]"
  by (simp add: ReportContext_def Let_def nat_diff_distrib' length_header2 length_header3)




subsection \<open>The loop of ReportRuns\<close>

lemma print_runs_eq:
  "print_runs env first this reports =
     (if \<forall>r \<in> set reports. benchmark_name r = benchmark_name first
      then Inr () else Inl CheckFailed,
      this,
      concat (map (\<lambda>r. snd (PrintRunData env this r))
                (takeWhile (\<lambda>r. benchmark_name r = benchmark_name first) reports)))"
proof (induction reports)
  case Nil
  show ?case by simp
next
  case (Cons run rest)
  obtain out where p: "PrintRunData env this run = (this, out)"
    using PrintRunData_reporter [of env this run] by (metis prod.collapse)
  show ?case
  proof (cases "benchmark_name first = benchmark_name run")
    case True
    then show ?thesis
      using Cons.IH by (subst print_runs.simps) (simp add: CHECK_EQ_def p)
  next
    case False
    then show ?thesis
      by (subst print_runs.simps) (simp add: CHECK_EQ_def)
  qed
qed

lemma PrintRunData_is_ColorPrintf:
  "set (snd (PrintRunData env this r)) \<subseteq> range (\<lambda>(c, s). ColorPrintf c s)"
  by (auto simp add: PrintRunData_events annotation_def)

lemma PrintRunData_pair: "PrintRunData env this r = (this, snd (PrintRunData env this r))"
  using PrintRunData_reporter [of env this r] by (cases "PrintRunData env this r") simp

lemma ReportRuns_same_name:
  assumes "reports \<noteq> []"
    and "\<forall>r \<in> set reports. benchmark_name r = benchmark_name (hd reports)"
  shows "ReportRuns env stats this reports =
     (Inr (), this,
      concat (map (\<lambda>r. snd (PrintRunData env this r)) reports) @
      (if 2 \<le> length reports
       then [Call_ComputeStats reports] @
            snd (PrintRunData env this (fst (stats reports))) @
            snd (PrintRunData env this (snd (stats reports)))
       else []))"
proof -
  obtain mean_data stddev_data where st: "stats reports = (mean_data, stddev_data)"
    by (cases "stats reports")
  obtain out2 where p2: "PrintRunData env this mean_data = (this, out2)"
    using PrintRunData_pair by blast
  obtain out3 where p3: "PrintRunData env this stddev_data = (this, out3)"
    using PrintRunData_pair by blast
  have t: "takeWhile (\<lambda>r. benchmark_name r = benchmark_name (hd reports)) reports = reports"
    using assms(2) by (simp only: takeWhile_eq_all_conv)
  have h: "reports ! 0 = hd reports"
    using assms(1) by (simp add: hd_conv_nth)
  have pr: "print_runs env (reports ! 0) this reports =
      (Inr (), this, concat (map (\<lambda>r. snd (PrintRunData env this r)) reports))"
  proof -
    have "(\<forall>r \<in> set reports. benchmark_name r = benchmark_name (hd reports)) = True"
      using assms(2) by blast
    then show ?thesis
      unfolding h print_runs_eq t by simp
  qed
  show ?thesis
  proof (cases "length reports < 2")
    case True
    then show ?thesis
      unfolding ReportRuns_def pr using assms(1) by simp
  next
    case False
    then show ?thesis
      unfolding ReportRuns_def pr st using assms(1) by (simp add: p2 p3)
  qed
qed

lemma ReportRuns_mismatch:
  assumes "\<not> (\<forall>r \<in> set reports. benchmark_name r = benchmark_name (hd reports))"
  shows "ReportRuns env stats this reports =
     (Inl CheckFailed, this,
      concat (map (\<lambda>r. snd (PrintRunData env this r))
                (takeWhile (\<lambda>r. benchmark_name r = benchmark_name (hd reports)) reports)))"
proof -
  have ne: "reports \<noteq> []"
    using assms by auto
  have pr: "print_runs env (reports ! 0) this reports =
      (Inl CheckFailed, this,
       concat (map (\<lambda>r. snd (PrintRunData env this r))
                 (takeWhile (\<lambda>r. benchmark_name r = benchmark_name (hd reports)) reports)))"
  proof -
    have "(\<forall>r \<in> set reports. benchmark_name r = benchmark_name (hd reports)) = False"
      using assms by blast
    then show ?thesis
      unfolding print_runs_eq hd_conv_nth [OF ne, symmetric] by simp
  qed
  show ?thesis
    unfolding ReportRuns_def pr using ne by simp
qed

lemma ReportRuns_reporter: "fst (snd (ReportRuns env stats this reports)) = this"
proof (cases "reports = []")
  case True
  then show ?thesis by (simp add: ReportRuns_def)
next
  case False
  show ?thesis
  proof (cases "\<forall>r \<in> set reports. benchmark_name r = benchmark_name (hd reports)")
    case True
    show ?thesis
      unfolding ReportRuns_same_name [OF False True] by simp
  next
    case False
    show ?thesis
      unfolding ReportRuns_mismatch [OF False] by simp
  qed
qed

subsection \<open>The layout state\<close>

text \<open>
  Claim C8. \<open>ReportContext\<close> leaves the reporter with \<open>name_field_width_\<close> equal to the
  context's \<open>name_field_width\<close> and \<open>manual_time_used_\<close> equal to the context's
  \<open>manual_time_used\<close>, whatever they were before, and the same flag selects the header
  with three time columns or the one with two. \<open>PrintRunData\<close> and \<open>ReportRuns\<close> return
  the reporter they were given, also when \<open>ReportRuns\<close> aborts; so after any sequence
  of groups reported one after the other the reporter is still the one \<open>ReportContext\<close>
  left, and every run line is printed with it.
\<close>

theorem C8_layout_set_once:
  "fst (snd (ReportContext env context this)) =
     \<lparr>name_field_width_member = name_field_width context,
      manual_time_used_member = manual_time_used context\<rparr> \<and>
   snd (snd (ReportContext env context this)) ! length (context_lines env context) =
     Write stdout
       (if manual_time_used context
        then header3 (fst (snd (ReportContext env context this)))
        else header2 (fst (snd (ReportContext env context this)))) \<and>
   fst (PrintRunData env layout r) = layout \<and>
   fst (snd (ReportRuns env stats layout reports)) = layout \<and>
   foldl (\<lambda>s group. fst (snd (ReportRuns env stats s group)))
     (fst (snd (ReportContext env context this))) groups =
     fst (snd (ReportContext env context this)) \<and>
   snd (snd (ReportRuns env stats layout reports)) =
     concat (map (\<lambda>r. snd (PrintRunData env layout r))
               (takeWhile (\<lambda>r. benchmark_name r = benchmark_name (hd reports)) reports)) @
     (if (\<forall>r \<in> set reports. benchmark_name r = benchmark_name (hd reports)) \<and>
         2 \<le> length reports
      then [Call_ComputeStats reports] @
           snd (PrintRunData env layout (fst (stats reports))) @
           snd (PrintRunData env layout (snd (stats reports)))
      else [])"
proof -
  have s: "fst (snd (ReportContext env context this)) =
     \<lparr>name_field_width_member = name_field_width context,
      manual_time_used_member = manual_time_used context\<rparr>"
    by (simp add: ReportContext_def Let_def)
  have h: "header3 (this\<lparr>name_field_width_member := name_field_width context\<rparr>) =
      header3 (fst (snd (ReportContext env context this)))"
    "header2 (this\<lparr>name_field_width_member := name_field_width context\<rparr>) =
      header2 (fst (snd (ReportContext env context this)))"
    by (simp_all add: s header3_def header2_def)
  have e: "snd (snd (ReportContext env context this)) ! length (context_lines env context) =
     Write stdout
       (if manual_time_used context
        then header3 (fst (snd (ReportContext env context this)))
        else header2 (fst (snd (ReportContext env context this))))"
    unfolding ReportContext_events h [symmetric] by (simp add: nth_append)
  have f: "foldl (\<lambda>s group. fst (snd (ReportRuns env stats s group))) layout' groups = layout'"
    for layout'
    by (induction groups) (simp_all add: ReportRuns_reporter)
  have o: "snd (snd (ReportRuns env stats layout reports)) =
     concat (map (\<lambda>r. snd (PrintRunData env layout r))
               (takeWhile (\<lambda>r. benchmark_name r = benchmark_name (hd reports)) reports)) @
     (if (\<forall>r \<in> set reports. benchmark_name r = benchmark_name (hd reports)) \<and>
         2 \<le> length reports
      then [Call_ComputeStats reports] @
           snd (PrintRunData env layout (fst (stats reports))) @
           snd (PrintRunData env layout (snd (stats reports)))
      else [])"
  proof (cases "\<forall>r \<in> set reports. benchmark_name r = benchmark_name (hd reports)")
    case True
    show ?thesis
    proof (cases "reports = []")
      case True
      then show ?thesis by (simp add: ReportRuns_def)
    next
      case False
      have t: "takeWhile (\<lambda>r. benchmark_name r = benchmark_name (hd reports)) reports = reports"
        using True by (simp only: takeWhile_eq_all_conv)
      have c: "(\<forall>r \<in> set reports. benchmark_name r = benchmark_name (hd reports)) = True"
        using True by blast
      show ?thesis
        unfolding ReportRuns_same_name [OF False True] t c by simp
    qed
  next
    case False
    then have c: "(\<forall>r \<in> set reports. benchmark_name r = benchmark_name (hd reports)) = False"
      by blast
    show ?thesis
      unfolding ReportRuns_mismatch [OF False] c by simp
  qed
  show ?thesis
    using s e f o by (simp only: PrintRunData_reporter ReportRuns_reporter simp_thms)
qed

theorem C8_witness:
  "fst (snd (ReportContext sample_env sample_context sample_reporter_no_manual)) =
     \<lparr>name_field_width_member = 10, manual_time_used_member = True\<rparr> \<and>
   benchmark_name sample_run = benchmark_name (hd [sample_run]) \<and>
   fst (snd (ReportRuns sample_env sample_stats sample_reporter [sample_run])) =
     sample_reporter \<and>
   snd (snd (ReportRuns sample_env sample_stats sample_reporter [sample_run])) =
     snd (PrintRunData sample_env sample_reporter sample_run)"
  using C8_layout_set_once [of sample_env sample_context sample_reporter_no_manual
      sample_reporter sample_run sample_stats "[sample_run]" "[]"]
  by (simp add: sample_context_def)

subsection \<open>What ReportContext puts on each stream\<close>

lemma text_on_append:
  "text_on cs st (xs @ ys) = text_on cs st xs @ text_on cs st ys"
  by (induction cs st xs rule: text_on.induct) simp_all

lemma text_on_context_lines:
  "text_on cs stdout (context_lines env context) = []"
  "set (context_lines env context) \<subseteq> range (Write stderr)"
  by (auto simp add: context_lines_def)

text \<open>
  \<open>ReportContext\<close> writes the context lines (the CPU line, the time stamp and the two
  warnings when they apply) to \<^verbatim>\<open>std::cerr\<close> and nothing else there; it writes the header
  and the rule line to \<^verbatim>\<open>stdout\<close> and nothing else there. It does not call
  \<^verbatim>\<open>ColorPrintf\<close>, so this holds whatever stream \<^verbatim>\<open>ColorPrintf\<close> prints on. A run line
  is made of calls of \<^verbatim>\<open>ColorPrintf\<close> only (\<open>PrintRunData_is_ColorPrintf\<close>): its stream is
  the one that \<^verbatim>\<open>colorprint.cc\<close> chooses, and nothing here settles it.
\<close>

lemma ReportContext_streams:
  "set (context_lines env context) \<subseteq> range (Write stderr) \<and>
   text_on cs stderr (snd (snd (ReportContext env context this))) =
     ''Run on ('' @ show_int (num_cpus context) @ '' X '' @
     ostream_double env (mhz_per_cpu context) @ '' MHz CPU '' @
     (if num_cpus context > 1 then ''s'' else []) @ '')'' @ nl @
     LocalDateTimeString env @ nl @
     (if cpu_scaling_enabled context
      then ''***WARNING*** CPU scaling is enabled, the benchmark '' @
           ''real time measurements may be noisy and will incur extra '' @
           ''overhead.'' @ nl
      else []) @
     (if \<not> NDEBUG env
      then ''***WARNING*** Library was built as DEBUG. Timings may be '' @
           ''affected.'' @ nl
      else []) \<and>
   text_on cs stdout (snd (snd (ReportContext env context this))) =
     (if manual_time_used context
      then header3 (this\<lparr>name_field_width_member := name_field_width context\<rparr>) @
           replicate (length (header3 (this\<lparr>name_field_width_member :=
                                          name_field_width context\<rparr>)) - 1) CHR ''-'' @ nl
      else header2 (this\<lparr>name_field_width_member := name_field_width context\<rparr>) @
           replicate (length (header2 (this\<lparr>name_field_width_member :=
                                          name_field_width context\<rparr>)) - 1) CHR ''-'' @ nl)"
  unfolding ReportContext_events
  by (simp add: text_on_append text_on_context_lines) (simp add: context_lines_def)

lemma Call_ComputeStats_not_printed:
  "Call_ComputeStats rs \<notin> set (snd (PrintRunData env this r))"
  using PrintRunData_is_ColorPrintf [of env this r] by auto

lemma Call_ComputeStats_not_in_loop:
  "Call_ComputeStats rs \<notin> set (concat (map (\<lambda>r. snd (PrintRunData env this r)) reports))"
  by (simp add: Call_ComputeStats_not_printed)

subsection \<open>The check of the benchmark names\<close>

text \<open>
  Claim C5. When a group holds two records with different benchmark names,
  \<open>ReportRuns\<close> ends in the failed check: it has printed the records before the first
  one whose name differs from \<^verbatim>\<open>reports[0]\<close>, and \<^verbatim>\<open>ComputeStats\<close> is not called. When
  every record has the name of the first one, no check fails and \<open>ReportRuns\<close> returns.
\<close>

theorem C5_name_check:
  "(a \<in> set reports \<and> b \<in> set reports \<and> benchmark_name a \<noteq> benchmark_name b \<longrightarrow>
      fst (ReportRuns env stats this reports) = Inl CheckFailed \<and>
      snd (snd (ReportRuns env stats this reports)) =
        concat (map (\<lambda>r. snd (PrintRunData env this r))
                  (takeWhile (\<lambda>r. benchmark_name r = benchmark_name (hd reports)) reports)) \<and>
      Call_ComputeStats rs \<notin> set (snd (snd (ReportRuns env stats this reports)))) \<and>
   ((\<forall>r \<in> set reports. benchmark_name r = benchmark_name (hd reports)) \<longrightarrow>
      fst (ReportRuns env stats this reports) = Inr ())"
proof (intro conjI impI)
  assume "a \<in> set reports \<and> b \<in> set reports \<and> benchmark_name a \<noteq> benchmark_name b"
  then have m: "\<not> (\<forall>r \<in> set reports. benchmark_name r = benchmark_name (hd reports))"
    by metis
  show "fst (ReportRuns env stats this reports) = Inl CheckFailed"
    unfolding ReportRuns_mismatch [OF m] by simp
  show "snd (snd (ReportRuns env stats this reports)) =
        concat (map (\<lambda>r. snd (PrintRunData env this r))
                  (takeWhile (\<lambda>r. benchmark_name r = benchmark_name (hd reports)) reports))"
    unfolding ReportRuns_mismatch [OF m] by simp
  show "Call_ComputeStats rs \<notin> set (snd (snd (ReportRuns env stats this reports)))"
    unfolding ReportRuns_mismatch [OF m] snd_conv
    by (rule Call_ComputeStats_not_in_loop)
next
  assume s: "\<forall>r \<in> set reports. benchmark_name r = benchmark_name (hd reports)"
  show "fst (ReportRuns env stats this reports) = Inr ()"
  proof (cases "reports = []")
    case True
    then show ?thesis by (simp add: ReportRuns_def)
  next
    case False
    show ?thesis
      unfolding ReportRuns_same_name [OF False s] by simp
  qed
qed

lemma sample_names:
  "benchmark_name sample_run = ''BM_copy''" "benchmark_name sample_run_other = ''BM_fill''"
  by (simp_all add: sample_run_def sample_run_other_def)

theorem C5_witness:
  "sample_run \<in> set [sample_run, sample_run_other] \<and>
   sample_run_other \<in> set [sample_run, sample_run_other] \<and>
   benchmark_name sample_run \<noteq> benchmark_name sample_run_other \<and>
   fst (ReportRuns sample_env sample_stats sample_reporter [sample_run, sample_run_other]) =
     Inl CheckFailed \<and>
   snd (snd (ReportRuns sample_env sample_stats sample_reporter
               [sample_run, sample_run_other])) =
     snd (PrintRunData sample_env sample_reporter sample_run) \<and>
   benchmark_name sample_run = benchmark_name (hd [sample_run, sample_run]) \<and>
   fst (ReportRuns sample_env sample_stats sample_reporter [sample_run, sample_run]) = Inr ()"
  using C5_name_check [of sample_run "[sample_run, sample_run_other]" sample_run_other
      sample_env sample_stats sample_reporter "[]"]
    C5_name_check [of sample_run "[sample_run, sample_run]" sample_run
      sample_env sample_stats sample_reporter "[]"]
  by (simp add: sample_names)

subsection \<open>The order of the report\<close>

text \<open>
  Claim C2 as it is stated fails on a group whose second record has another benchmark
  name: the first record is printed, the check of the second one fails, the second
  record is not printed and no mean or standard deviation follows, although the group
  has two elements.
\<close>

theorem C2_counterexample:
  "ReportRuns sample_env sample_stats sample_reporter [sample_run, sample_run_other] =
     (Inl CheckFailed, sample_reporter,
      snd (PrintRunData sample_env sample_reporter sample_run)) \<and>
   snd (snd (ReportRuns sample_env sample_stats sample_reporter
               [sample_run, sample_run_other])) \<noteq>
     snd (PrintRunData sample_env sample_reporter sample_run) @
     snd (PrintRunData sample_env sample_reporter sample_run_other) @
     [Call_ComputeStats [sample_run, sample_run_other]] @
     snd (PrintRunData sample_env sample_reporter
            (fst (sample_stats [sample_run, sample_run_other]))) @
     snd (PrintRunData sample_env sample_reporter
            (snd (sample_stats [sample_run, sample_run_other])))"
proof -
  have m: "\<not> (\<forall>r \<in> set [sample_run, sample_run_other].
              benchmark_name r = benchmark_name (hd [sample_run, sample_run_other]))"
    by (simp add: sample_names)
  show ?thesis
    unfolding ReportRuns_mismatch [OF m] by (simp add: sample_names)
qed

text \<open>
  Claim C2, amended. An empty group prints nothing, calls nothing and leaves the
  reporter as it was. A group of one record is exactly \<open>PrintRunData\<close> of that record,
  and \<^verbatim>\<open>ComputeStats\<close> is not called. For a group whose records all have the benchmark
  name of the first one, \<open>ReportRuns\<close> returns, the reporter is unchanged, every record
  is printed in the order of the group, and exactly when the group has two or more
  records \<^verbatim>\<open>ComputeStats\<close> is then called on the group and its mean record and its
  standard deviation record are printed, in this order, after all the records.
\<close>

theorem C2_report_runs:
  "ReportRuns env stats this [] = (Inr (), this, []) \<and>
   ReportRuns env stats this [r] = (Inr (), PrintRunData env this r) \<and>
   Call_ComputeStats rs \<notin> set (snd (snd (ReportRuns env stats this [r]))) \<and>
   ((\<forall>r \<in> set reports. benchmark_name r = benchmark_name (hd reports)) \<longrightarrow>
      ReportRuns env stats this reports =
        (Inr (), this,
         concat (map (\<lambda>r. snd (PrintRunData env this r)) reports) @
         (if 2 \<le> length reports
          then [Call_ComputeStats reports] @
               snd (PrintRunData env this (fst (stats reports))) @
               snd (PrintRunData env this (snd (stats reports)))
          else [])) \<and>
      (Call_ComputeStats reports \<in> set (snd (snd (ReportRuns env stats this reports)))
         \<longleftrightarrow> 2 \<le> length reports))"
proof (intro conjI impI)
  show "ReportRuns env stats this [] = (Inr (), this, [])"
    by (simp add: ReportRuns_def)
  have one: "ReportRuns env stats this [r] = (Inr (), this, snd (PrintRunData env this r))"
    using ReportRuns_same_name [of "[r]" env stats this] by simp
  then show "ReportRuns env stats this [r] = (Inr (), PrintRunData env this r)"
    using PrintRunData_pair [of env this r] by simp
  show "Call_ComputeStats rs \<notin> set (snd (snd (ReportRuns env stats this [r])))"
    unfolding one by (simp add: Call_ComputeStats_not_printed)
next
  assume s: "\<forall>r \<in> set reports. benchmark_name r = benchmark_name (hd reports)"
  show eq: "ReportRuns env stats this reports =
        (Inr (), this,
         concat (map (\<lambda>r. snd (PrintRunData env this r)) reports) @
         (if 2 \<le> length reports
          then [Call_ComputeStats reports] @
               snd (PrintRunData env this (fst (stats reports))) @
               snd (PrintRunData env this (snd (stats reports)))
          else []))"
  proof (cases "reports = []")
    case True
    then show ?thesis by (simp add: ReportRuns_def)
  next
    case False
    show ?thesis by (rule ReportRuns_same_name [OF False s])
  qed
  show "Call_ComputeStats reports \<in> set (snd (snd (ReportRuns env stats this reports)))
         \<longleftrightarrow> 2 \<le> length reports"
    unfolding eq
    using Call_ComputeStats_not_in_loop [of reports env this reports]
    by (simp add: Call_ComputeStats_not_printed)
qed

theorem C2_witness:
  "benchmark_name sample_run = benchmark_name (hd [sample_run, sample_run]) \<and>
   ReportRuns sample_env sample_stats sample_reporter [sample_run, sample_run] =
     (Inr (), sample_reporter,
      snd (PrintRunData sample_env sample_reporter sample_run) @
      snd (PrintRunData sample_env sample_reporter sample_run) @
      [Call_ComputeStats [sample_run, sample_run]] @
      snd (PrintRunData sample_env sample_reporter
             (sample_run\<lparr>benchmark_name := ''BM_copy_mean''\<rparr>)) @
      snd (PrintRunData sample_env sample_reporter
             (sample_run\<lparr>benchmark_name := ''BM_copy_stddev''\<rparr>))) \<and>
   ReportRuns sample_env sample_stats sample_reporter [sample_run] =
     (Inr (), PrintRunData sample_env sample_reporter sample_run)"
  using C2_report_runs [of sample_env sample_stats sample_reporter sample_run "[]"
      "[sample_run, sample_run]"]
  by (simp add: sample_stats_def sample_names)

subsection \<open>Mean and standard deviation\<close>



lemma StdDev_single: "StdDev [x] = 0"
  by (simp add: StdDev_def)









lemma Mean_10_20_30: "Mean [10, 20, 30] = 20"
  by (simp add: Mean_def)

lemma StdDev_10_20_30: "StdDev [10, 20, 30] = sqrt (200 / 3)"
  unfolding StdDev_def Mean_10_20_30 by (simp add: power2_eq_square)


end
